theory Spec2Isabelle
  imports Main "HOL-Library.Word"
begin

unbundle bit_operations_syntax

section \<open>Nintendo Wii OHCI glue (ohci-mipc.c): data model\<close>

text \<open>
  C \<^verbatim>\<open>int\<close> and \<^verbatim>\<open>u32\<close> are 32-bit words. A return code is tested only
  against zero and negated, so the two's complement word is all that is needed.
\<close>

type_synonym c_int = "32 word"
type_synonym u32 = "32 word"

text \<open>
  Constants the driver reads from kernel headers that are not part of the two source
  files: the errno values, the \<^verbatim>\<open>NO_IRQ\<close> sentinel, the identifier of the 'mini'
  IPC flavour and the \<^verbatim>\<open>IRQF_DISABLED\<close> flag. They are parameters of the model.
\<close>

record kconsts =
  ENODEV :: c_int
  ENOMEM :: c_int
  EBUSY :: c_int
  NO_IRQ :: c_int
  STARLET_IPC_MINI :: c_int
  IRQF_DISABLED :: u32

text \<open>The three register constants the file defines itself (lines 39 to 41).\<close>

definition HOLLYWOOD_EHCI_CTL :: u32 where
  "HOLLYWOOD_EHCI_CTL = 0x0d0400cc"

definition HOLLYWOOD_EHCI_CTL_OH0INTE :: u32 where
  "HOLLYWOOD_EHCI_CTL_OH0INTE = push_bit 11 1"

definition HOLLYWOOD_EHCI_CTL_OH1INTE :: u32 where
  "HOLLYWOOD_EHCI_CTL_OH1INTE = push_bit 12 1"

text \<open>
  \<^verbatim>\<open>struct resource\<close> and the fields of \<^verbatim>\<open>struct usb_hcd\<close> that the glue
  touches. On this 32-bit platform \<^verbatim>\<open>resource_size_t\<close> and \<^verbatim>\<open>unsigned long\<close>
  are 32 bits wide; \<^verbatim>\<open>rsrc_start\<close> and \<^verbatim>\<open>rsrc_len\<close> are \<^verbatim>\<open>u64\<close>.
\<close>

record resource =
  res_start :: u32
  res_end :: u32

type_synonym u64 = "64 word"

record usb_hcd =
  rsrc_start :: u64
  rsrc_len :: u64
  regs :: u32
  irq :: c_int
  self_bus_name :: string

text \<open>
  Every call of an external collaborator is recorded, with its arguments and, where the
  caller looks at it, its result. The generic OHCI engine (\<^verbatim>\<open>ohci_init\<close>,
  \<^verbatim>\<open>ohci_run\<close>, \<^verbatim>\<open>ohci_stop\<close>), the USB core, the device tree and the
  interrupt mapper are such collaborators: the model takes their results from an
  environment and records the call.
\<close>

datatype event =
    Ohci_init c_int
  | Mipc_in_be32 u32 u32
  | Mipc_out_be32 u32 u32
  | Ohci_run c_int
  | Err string
  | Ohci_stop
  | Dev_dbg string
  | Of_address_to_resource c_int
  | Usb_create_hcd bool
  | Irq_of_parse_and_map c_int
  | Printk string
  | Ohci_hcd_init
  | Usb_add_hcd c_int u32 c_int
  | Irq_dispose_mapping c_int
  | Usb_put_hcd
  | Usb_remove_hcd
  | Dev_set_drvdata_NULL

text \<open>
  The world the driver acts on: the I/O space reached through the 'mini' IPC accessors
  (a store from addresses to 32-bit values) and the trace of collaborator calls.
\<close>

record world =
  io :: "u32 \<Rightarrow> u32"
  trace :: "event list"

definition emit :: "event \<Rightarrow> world \<Rightarrow> world" where
  "emit e w = w\<lparr>trace := trace w @ [e]\<rparr>"

text \<open>
  \<^verbatim>\<open>mipc_in_be32\<close> and \<^verbatim>\<open>mipc_out_be32\<close> (asm/starlet-mini.h, not among the
  source files) are the 32-bit load and store on that I/O space.
\<close>

definition mipc_in_be32 :: "u32 \<Rightarrow> world \<Rightarrow> u32 \<times> world" where
  "mipc_in_be32 a w = (io w a, emit (Mipc_in_be32 a (io w a)) w)"

definition mipc_out_be32 :: "u32 \<Rightarrow> u32 \<Rightarrow> world \<Rightarrow> world" where
  "mipc_out_be32 a v w = emit (Mipc_out_be32 a v) (w\<lparr>io := (io w)(a := v)\<rparr>)"

text \<open>
  The controller engine: the return codes of \<^verbatim>\<open>ohci_init\<close> and \<^verbatim>\<open>ohci_run\<close>
  come from the environment. The engine works on the controller's own register window
  (\<^verbatim>\<open>hcd->regs\<close>); the shared register at \<^verbatim>\<open>HOLLYWOOD_EHCI_CTL\<close> is reached
  only through the two accessors above.
\<close>

record engine =
  ohci_init_ret :: c_int
  ohci_run_ret :: c_int

definition ohci_init :: "engine \<Rightarrow> world \<Rightarrow> c_int \<times> world" where
  "ohci_init eng w = (ohci_init_ret eng, emit (Ohci_init (ohci_init_ret eng)) w)"

definition ohci_run :: "engine \<Rightarrow> world \<Rightarrow> c_int \<times> world" where
  "ohci_run eng w = (ohci_run_ret eng, emit (Ohci_run (ohci_run_ret eng)) w)"

definition ohci_stop :: "world \<Rightarrow> world" where
  "ohci_stop w = emit Ohci_stop w"

text \<open>
  \<^verbatim>\<open>err("can't start %s", bus_name)\<close>: one diagnostic line. The event carries the
  formatted message; the module-name prefix and the line end that the \<^verbatim>\<open>err\<close>
  macro of the USB headers adds are left out.
\<close>

definition err :: "string \<Rightarrow> world \<Rightarrow> world" where
  "err msg w = emit (Err msg) w"

definition cant_start :: "string \<Rightarrow> string" where
  "cant_start name = [CHR ''c'', CHR ''a'', CHR ''n'', CHR 0x27, CHR ''t''] @ '' start '' @ name"

subsection \<open>ohci_mipc_start (lines 43 to 68)\<close>

definition ohci_mipc_start :: "engine \<Rightarrow> usb_hcd \<Rightarrow> world \<Rightarrow> c_int \<times> world" where
  "ohci_mipc_start eng hcd w =
     (let ehci_ctl = HOLLYWOOD_EHCI_CTL;
          (error, w1) = ohci_init eng w
      in if error \<noteq> 0 then (error, w1)
         else
           let (v, w2) = mipc_in_be32 ehci_ctl w1;
               w3 = mipc_out_be32 ehci_ctl
                      (((v OR 0xe0000) OR HOLLYWOOD_EHCI_CTL_OH0INTE)
                         OR HOLLYWOOD_EHCI_CTL_OH1INTE) w2;
               (error, w4) = ohci_run eng w3
           in if error \<noteq> 0
              then (error, ohci_stop (err (cant_start (self_bus_name hcd)) w4))
              else (error, w4))"


subsection \<open>ohci_hcd_mipc_probe (lines 113 to 168)\<close>

text \<open>
  What the collaborators answer during one probe: whether USB is disabled, the IPC
  flavour, the error code and resource of \<^verbatim>\<open>of_address_to_resource\<close>, the handle
  \<^verbatim>\<open>usb_create_hcd\<close> allocates (\<open>None\<close> is the null pointer), the interrupt
  number \<^verbatim>\<open>irq_of_parse_and_map\<close> returns and the return code of
  \<^verbatim>\<open>usb_add_hcd\<close>, which runs the engine through the driver's start operation and
  registers the controller with the bus.
\<close>

record probe_env =
  usb_disabled_ret :: bool
  starlet_get_ipc_flavour_ret :: c_int
  of_address_to_resource_ret :: "c_int \<times> resource"
  usb_create_hcd_ret :: "usb_hcd option"
  irq_of_parse_and_map_ret :: c_int
  usb_add_hcd_ret :: c_int

definition dev_dbg :: "string \<Rightarrow> world \<Rightarrow> world" where
  "dev_dbg msg w = emit (Dev_dbg msg) w"

text \<open>
  \<^verbatim>\<open>printk\<close>: the event carries the literal part of the message; the log level
  \<^verbatim>\<open>KERN_ERR\<close> and the \<^verbatim>\<open>__FILE__\<close> prefix come from the build.
\<close>

definition printk :: "string \<Rightarrow> world \<Rightarrow> world" where
  "printk msg w = emit (Printk msg) w"

definition of_address_to_resource :: "probe_env \<Rightarrow> world \<Rightarrow> c_int \<times> resource \<times> world" where
  "of_address_to_resource env w =
     (fst (of_address_to_resource_ret env), snd (of_address_to_resource_ret env),
      emit (Of_address_to_resource (fst (of_address_to_resource_ret env))) w)"

definition usb_create_hcd :: "probe_env \<Rightarrow> world \<Rightarrow> usb_hcd option \<times> world" where
  "usb_create_hcd env w =
     (usb_create_hcd_ret env, emit (Usb_create_hcd (usb_create_hcd_ret env \<noteq> None)) w)"

definition irq_of_parse_and_map :: "probe_env \<Rightarrow> world \<Rightarrow> c_int \<times> world" where
  "irq_of_parse_and_map env w =
     (irq_of_parse_and_map_ret env, emit (Irq_of_parse_and_map (irq_of_parse_and_map_ret env)) w)"

definition ohci_hcd_init :: "world \<Rightarrow> world" where
  "ohci_hcd_init w = emit Ohci_hcd_init w"

text \<open>
  Modelled from the spec: \<^verbatim>\<open>usb_add_hcd\<close> (drivers/usb/core/hcd.c) is not among the
  source files. It is the bus registration \<open>register(handle, irq)\<close>: on success the
  handle keeps the interrupt line it was registered with, which is the line the remove
  operation later reads again from \<^verbatim>\<open>hcd->irq\<close>.
\<close>

definition usb_add_hcd ::
  "probe_env \<Rightarrow> usb_hcd \<Rightarrow> c_int \<Rightarrow> u32 \<Rightarrow> world \<Rightarrow> c_int \<times> usb_hcd \<times> world" where
  "usb_add_hcd env hcd irqnum irqflags w =
     (usb_add_hcd_ret env,
      (if usb_add_hcd_ret env = 0 then hcd\<lparr>irq := irqnum\<rparr> else hcd),
      emit (Usb_add_hcd irqnum irqflags (usb_add_hcd_ret env)) w)"

definition irq_dispose_mapping :: "c_int \<Rightarrow> world \<Rightarrow> world" where
  "irq_dispose_mapping i w = emit (Irq_dispose_mapping i) w"

definition usb_put_hcd :: "world \<Rightarrow> world" where
  "usb_put_hcd w = emit Usb_put_hcd w"

text \<open>
  \<^verbatim>\<open>usb_remove_hcd\<close> (USB core, not among the source files) is handed the handle
  and may write it: it runs the driver's stop operation. What it leaves in the handle is
  a parameter of the model, the function \<open>core\<close>.
\<close>

definition usb_remove_hcd :: "(usb_hcd \<Rightarrow> usb_hcd) \<Rightarrow> usb_hcd \<Rightarrow> world \<Rightarrow> usb_hcd \<times> world" where
  "usb_remove_hcd core hcd w = (core hcd, emit Usb_remove_hcd w)"

definition dev_set_drvdata_NULL :: "world \<Rightarrow> world" where
  "dev_set_drvdata_NULL w = emit Dev_set_drvdata_NULL w"

text \<open>The three exit labels of the probe, each falling through to the next.\<close>

definition out :: "c_int \<Rightarrow> world \<Rightarrow> c_int \<times> usb_hcd option \<times> world" where
  "out error w = (error, None, w)"

definition err_irq :: "c_int \<Rightarrow> world \<Rightarrow> c_int \<times> usb_hcd option \<times> world" where
  "err_irq error w = out error (usb_put_hcd w)"

definition err_add_hcd :: "c_int \<Rightarrow> c_int \<Rightarrow> world \<Rightarrow> c_int \<times> usb_hcd option \<times> world" where
  "err_add_hcd i error w = err_irq error (irq_dispose_mapping i w)"

text \<open>
  The probe returns its code, the live handle when it succeeded (the handle the device
  keeps as its driver data) and the world.
\<close>

definition ohci_hcd_mipc_probe ::
  "kconsts \<Rightarrow> probe_env \<Rightarrow> world \<Rightarrow> c_int \<times> usb_hcd option \<times> world" where
  "ohci_hcd_mipc_probe k env w =
     (if usb_disabled_ret env then (- ENODEV k, None, w)
      else if starlet_get_ipc_flavour_ret env \<noteq> STARLET_IPC_MINI k then (- ENODEV k, None, w)
      else
        let w0 = dev_dbg ''initializing ohci-mipc USB Controller\<newline>'' w;
            (error, res, w1) = of_address_to_resource env w0
        in if error \<noteq> 0 then out error w1
           else
             case usb_create_hcd env w1 of
               (None, w2) \<Rightarrow> out (- ENOMEM k) w2
             | (Some hcd0, w2) \<Rightarrow>
                 let hcd1 = hcd0\<lparr>rsrc_start := ucast (res_start res)\<rparr>;
                     hcd2 = hcd1\<lparr>rsrc_len := ucast (res_end res - res_start res + 1)\<rparr>;
                     (i, w3) = irq_of_parse_and_map env w2
                 in if i = NO_IRQ k
                    then err_irq (- EBUSY k) (printk '': irq_of_parse_and_map failed\<newline>'' w3)
                    else
                      let hcd3 = hcd2\<lparr>regs := ucast (rsrc_start hcd2)\<rparr>;
                          w4 = ohci_hcd_init w3;
                          (error, hcd4, w5) = usb_add_hcd env hcd3 i (IRQF_DISABLED k) w4
                      in if error \<noteq> 0 then err_add_hcd i error w5
                         else (0, Some hcd4, w5))"

subsection \<open>ohci_hcd_mipc_remove (lines 170 to 183)\<close>

text \<open>
  The handle is the device's driver data. \<^verbatim>\<open>hcd->irq\<close> is read after
  \<^verbatim>\<open>usb_remove_hcd(hcd)\<close> has returned, so the interrupt number disposed of is the
  one the handle holds then.
\<close>

definition ohci_hcd_mipc_remove ::
  "(usb_hcd \<Rightarrow> usb_hcd) \<Rightarrow> usb_hcd \<Rightarrow> world \<Rightarrow> c_int \<times> world" where
  "ohci_hcd_mipc_remove core hcd w =
     (let w1 = dev_set_drvdata_NULL w;
          w2 = dev_dbg ''stopping ohci-mipc USB Controller\<newline>'' w1;
          (hcd1, w3) = usb_remove_hcd core hcd w2;
          w4 = irq_dispose_mapping (irq hcd1) w3;
          w5 = usb_put_hcd w4
      in (0, w5))"

subsection \<open>Observing a trace\<close>

text \<open>The collaborator calls made between two worlds.\<close>

definition since :: "world \<Rightarrow> world \<Rightarrow> event list" where
  "since w w' = drop (length (trace w)) (trace w')"

text \<open>
  The resources the glue acquires and releases: the controller handle
  (\<^verbatim>\<open>usb_create_hcd\<close> / \<^verbatim>\<open>usb_put_hcd\<close>), the interrupt mapping
  (\<^verbatim>\<open>irq_of_parse_and_map\<close> / \<^verbatim>\<open>irq_dispose_mapping\<close>) and the bus
  registration (\<^verbatim>\<open>usb_add_hcd\<close> / \<^verbatim>\<open>usb_remove_hcd\<close>). A call acquires only
  when it succeeded.
\<close>

datatype held = Hcd_handle | Irq_mapping c_int | Bus_registration

fun acquired :: "kconsts \<Rightarrow> event \<Rightarrow> held option" where
  "acquired k (Usb_create_hcd ok) = (if ok then Some Hcd_handle else None)"
| "acquired k (Irq_of_parse_and_map i) = (if i = NO_IRQ k then None else Some (Irq_mapping i))"
| "acquired k (Usb_add_hcd i f r) = (if r = 0 then Some Bus_registration else None)"
| "acquired k _ = None"

fun released :: "event \<Rightarrow> held option" where
  "released Usb_remove_hcd = Some Bus_registration"
| "released (Irq_dispose_mapping i) = Some (Irq_mapping i)"
| "released Usb_put_hcd = Some Hcd_handle"
| "released _ = None"

text \<open>
  Running a trace against the stack of held resources: an acquisition pushes, a release
  must pop the resource acquired last (\<open>None\<close> when it does not), every other call
  leaves the stack alone.
\<close>

fun lifo :: "kconsts \<Rightarrow> event list \<Rightarrow> held list \<Rightarrow> held list option" where
  "lifo k [] st = Some st"
| "lifo k (e # es) st =
     (case released e of
        Some r \<Rightarrow> (case st of
                     [] \<Rightarrow> None
                   | s # st' \<Rightarrow> if s = r then lifo k es st' else None)
      | None \<Rightarrow> (case acquired k e of
                   Some r \<Rightarrow> lifo k es (r # st)
                 | None \<Rightarrow> lifo k es st))"

text \<open>The kind of a resource, whatever interrupt number a mapping is for.\<close>

datatype kind = Handle | Mapping | Registration

fun kind_of :: "held \<Rightarrow> kind" where
  "kind_of Hcd_handle = Handle"
| "kind_of (Irq_mapping i) = Mapping"
| "kind_of Bus_registration = Registration"

text \<open>Accesses to the I/O space, and diagnostic messages, among the recorded calls.\<close>

fun is_mipc :: "event \<Rightarrow> bool" where
  "is_mipc (Mipc_in_be32 a v) = True"
| "is_mipc (Mipc_out_be32 a v) = True"
| "is_mipc _ = False"

fun is_diagnostic :: "event \<Rightarrow> bool" where
  "is_diagnostic (Err s) = True"
| "is_diagnostic (Printk s) = True"
| "is_diagnostic _ = False"


text \<open>
  The shared interrupt-enable sequence in the words of the specification: the register
  value with the fixed mask and the enable bit of one slot set.
\<close>

datatype slot = Slot0 | Slot1

definition fixed_mask :: u32 where
  "fixed_mask = 0xe0000"

fun slot_enable_bit :: "slot \<Rightarrow> u32" where
  "slot_enable_bit Slot0 = HOLLYWOOD_EHCI_CTL_OH0INTE"
| "slot_enable_bit Slot1 = HOLLYWOOD_EHCI_CTL_OH1INTE"

definition spec_shared_interrupt_enable :: "slot \<Rightarrow> u32 \<Rightarrow> u32" where
  "spec_shared_interrupt_enable s v = (v OR fixed_mask) OR slot_enable_bit s"

subsection \<open>Two bring-up sequences on the shared register\<close>

text \<open>
  The statement at lines 55 to 57 is two accesses: \<^verbatim>\<open>mipc_in_be32\<close> is evaluated
  first, as the argument, and \<^verbatim>\<open>mipc_out_be32\<close> is called afterwards with the
  value fetched. The source takes no lock and calls no other synchronisation between
  the two, so when the two controller instances are started concurrently their
  accesses can be scheduled in any order that keeps each instance's read before its
  write. A step is one access of one instance; each instance keeps the value it has
  fetched until it writes.
\<close>

datatype step = Rd slot | Wr slot

record conc =
  shared :: world
  fetched :: "slot \<Rightarrow> u32 option"

definition enable_read :: "slot \<Rightarrow> conc \<Rightarrow> conc" where
  "enable_read s c =
     (let (v, w') = mipc_in_be32 HOLLYWOOD_EHCI_CTL (shared c)
      in c\<lparr>shared := w', fetched := (fetched c)(s := Some v)\<rparr>)"

definition enable_write :: "slot \<Rightarrow> conc \<Rightarrow> conc option" where
  "enable_write s c =
     (case fetched c s of
        None \<Rightarrow> None
      | Some v \<Rightarrow>
          Some (c\<lparr>shared := mipc_out_be32 HOLLYWOOD_EHCI_CTL
                   (((v OR 0xe0000) OR HOLLYWOOD_EHCI_CTL_OH0INTE)
                      OR HOLLYWOOD_EHCI_CTL_OH1INTE) (shared c)\<rparr>))"

text \<open>Running a schedule; a write of an instance that has fetched nothing is no run.\<close>

fun run_schedule :: "step list \<Rightarrow> conc \<Rightarrow> conc option" where
  "run_schedule [] c = Some c"
| "run_schedule (Rd s # rest) c = run_schedule rest (enable_read s c)"
| "run_schedule (Wr s # rest) c =
     (case enable_write s c of None \<Rightarrow> None | Some c' \<Rightarrow> run_schedule rest c')"

definition nothing_fetched :: "slot \<Rightarrow> u32 option" where
  "nothing_fetched s = None"

definition two_bring_ups :: "world \<Rightarrow> conc" where
  "two_bring_ups w = \<lparr>shared = w, fetched = nothing_fetched\<rparr>"

text \<open>
  The schedules of two concurrent bring-ups: all interleavings of the read and write of
  slot 0 with the read and write of slot 1.
\<close>

definition schedules :: "step list set" where
  "schedules = shuffles [Rd Slot0, Wr Slot0] [Rd Slot1, Wr Slot1]"

text \<open>
  Mutual exclusion on the register: between the read and the write of one instance no
  access of the other takes place. The first argument is the instance that has read and
  not yet written.
\<close>

fun exclusive :: "slot option \<Rightarrow> step list \<Rightarrow> bool" where
  "exclusive h [] = True"
| "exclusive None (Rd s # rest) = exclusive (Some s) rest"
| "exclusive (Some s') (Rd s # rest) = False"
| "exclusive None (Wr s # rest) = False"
| "exclusive (Some s') (Wr s # rest) = (s = s' \<and> exclusive None rest)"

section \<open>Nintendo Wii board support (wii.c): power sequencing\<close>

datatype starlet_title = STARLET_TITLE_HBC

type_synonym kimage = nat

datatype wii_event =
    Local_irq_disable
  | Starlet_es_reload_ios_and_launch starlet_title
  | Starlet_stm_restart
  | Starlet_stm_power_off
  | Cpu_relax
  | Starlet_es_reload_ios_and_discard
  | Default_machine_kexec kimage

text \<open>The processor's interrupt state and the calls made so far, oldest first.\<close>

record machine =
  irqs_enabled :: bool
  calls :: "wii_event list"

text \<open>
  How far an operation got: it returned to its caller, a collaborator it called never
  came back (the machine restarted, powered off or jumped to the new image), or it is
  still inside \<^verbatim>\<open>for (;;) cpu_relax();\<close> when the fuel ran out.
\<close>

datatype outcome = Returned machine | Never_came_back machine | Spinning machine

fun machine_of :: "outcome \<Rightarrow> machine" where
  "machine_of (Returned m) = m"
| "machine_of (Never_came_back m) = m"
| "machine_of (Spinning m) = m"

fun is_spinning :: "outcome \<Rightarrow> bool" where
  "is_spinning (Spinning m) = True"
| "is_spinning _ = False"

fun has_returned :: "outcome \<Rightarrow> bool" where
  "has_returned (Returned m) = True"
| "has_returned _ = False"

text \<open>
  A call of an external collaborator; the environment \<open>returns\<close> says whether that call
  comes back to its caller, and the rest of the operation runs only when it does.
\<close>

definition call ::
  "(wii_event \<Rightarrow> bool) \<Rightarrow> wii_event \<Rightarrow> machine \<Rightarrow> (machine \<Rightarrow> outcome) \<Rightarrow> outcome" where
  "call returns e m rest =
     (if returns e then rest (m\<lparr>calls := calls m @ [e]\<rparr>)
      else Never_came_back (m\<lparr>calls := calls m @ [e]\<rparr>))"

definition local_irq_disable :: "machine \<Rightarrow> machine" where
  "local_irq_disable m = m\<lparr>irqs_enabled := False, calls := calls m @ [Local_irq_disable]\<rparr>"

definition cpu_relax :: "machine \<Rightarrow> machine" where
  "cpu_relax m = m\<lparr>calls := calls m @ [Cpu_relax]\<rparr>"

text \<open>\<^verbatim>\<open>for (;;) cpu_relax();\<close> has no exit: with any fuel it is still spinning.\<close>

fun spin :: "nat \<Rightarrow> machine \<Rightarrow> outcome" where
  "spin 0 m = Spinning m"
| "spin (Suc n) m = spin n (cpu_relax m)"

definition wii_restart :: "nat \<Rightarrow> (wii_event \<Rightarrow> bool) \<Rightarrow> string option \<Rightarrow> machine \<Rightarrow> outcome" where
  "wii_restart fuel returns cmd m =
     call returns (Starlet_es_reload_ios_and_launch STARLET_TITLE_HBC) (local_irq_disable m)
       (\<lambda>m1. call returns Starlet_stm_restart m1 (spin fuel))"

definition wii_power_off :: "nat \<Rightarrow> (wii_event \<Rightarrow> bool) \<Rightarrow> machine \<Rightarrow> outcome" where
  "wii_power_off fuel returns m =
     call returns Starlet_stm_power_off (local_irq_disable m) (spin fuel)"

definition wii_machine_kexec :: "(wii_event \<Rightarrow> bool) \<Rightarrow> kimage \<Rightarrow> machine \<Rightarrow> outcome" where
  "wii_machine_kexec returns img m =
     call returns Starlet_es_reload_ios_and_discard (local_irq_disable m)
       (\<lambda>m1. call returns (Default_machine_kexec img) m1 Returned)"

text \<open>The calls that go to the I/O processor (the remote calls).\<close>

fun is_remote :: "wii_event \<Rightarrow> bool" where
  "is_remote (Starlet_es_reload_ios_and_launch t) = True"
| "is_remote Starlet_stm_restart = True"
| "is_remote Starlet_stm_power_off = True"
| "is_remote Starlet_es_reload_ios_and_discard = True"
| "is_remote _ = False"

definition calls_since :: "machine \<Rightarrow> outcome \<Rightarrow> wii_event list" where
  "calls_since m r = drop (length (calls m)) (calls (machine_of r))"

section \<open>Concrete inputs\<close>

text \<open>
  The header constants as a Linux 2.6 build for 32-bit PowerPC has them, a register
  window of 512 bytes, interrupt line 5, and engines and environments that succeed or
  fail at one chosen step.
\<close>

definition linux_consts :: kconsts where
  "linux_consts = \<lparr>ENODEV = 19, ENOMEM = 12, EBUSY = 16, NO_IRQ = 0,
     STARLET_IPC_MINI = 1, IRQF_DISABLED = 0x20\<rparr>"

definition io_zero :: "u32 \<Rightarrow> u32" where
  "io_zero a = 0"

definition world0 :: world where
  "world0 = \<lparr>io = io_zero, trace = []\<rparr>"

definition hcd0 :: usb_hcd where
  "hcd0 = \<lparr>rsrc_start = 0, rsrc_len = 0, regs = 0, irq = 0, self_bus_name = ''mipc''\<rparr>"

definition res0 :: resource where
  "res0 = \<lparr>res_start = 0x0d050000, res_end = 0x0d0501ff\<rparr>"

definition engine_ok :: engine where
  "engine_ok = \<lparr>ohci_init_ret = 0, ohci_run_ret = 0\<rparr>"

definition engine_run_fails :: engine where
  "engine_run_fails = \<lparr>ohci_init_ret = 0, ohci_run_ret = 5\<rparr>"

definition env_ok :: probe_env where
  "env_ok = \<lparr>usb_disabled_ret = False, starlet_get_ipc_flavour_ret = 1,
     of_address_to_resource_ret = (0, res0), usb_create_hcd_ret = Some hcd0,
     irq_of_parse_and_map_ret = 5, usb_add_hcd_ret = 0\<rparr>"

definition env_no_irq :: probe_env where
  "env_no_irq = env_ok\<lparr>irq_of_parse_and_map_ret := 0\<rparr>"


definition machine0 :: machine where
  "machine0 = \<lparr>irqs_enabled = True, calls = []\<rparr>"

definition every_call_returns :: "wii_event \<Rightarrow> bool" where
  "every_call_returns e = True"

definition hcd_live :: usb_hcd where
  "hcd_live = \<lparr>rsrc_start = 0x0d050000, rsrc_len = 0x200, regs = 0x0d050000, irq = 5,
     self_bus_name = ''mipc''\<rparr>"

text \<open>A USB core that leaves the handle as it is, and one that resets its interrupt number.\<close>

definition core_keeps_handle :: "usb_hcd \<Rightarrow> usb_hcd" where
  "core_keeps_handle h = h"

definition core_resets_irq :: "usb_hcd \<Rightarrow> usb_hcd" where
  "core_resets_irq h = h\<lparr>irq := - 1\<rparr>"

text \<open>An environment in which the launch call never comes back and every other call does.\<close>

fun launch_never_returns :: "wii_event \<Rightarrow> bool" where
  "launch_never_returns (Starlet_es_reload_ios_and_launch t) = False"
| "launch_never_returns _ = True"

definition world_live :: world where
  "world_live = snd (snd (ohci_hcd_mipc_probe linux_consts env_ok world0))"

section \<open>The start operation\<close>

lemmas start_defs = ohci_mipc_start_def ohci_init_def ohci_run_def ohci_stop_def err_def
  mipc_in_be32_def mipc_out_be32_def emit_def Let_def since_def

lemmas bit_defs = HOLLYWOOD_EHCI_CTL_OH0INTE_def HOLLYWOOD_EHCI_CTL_OH1INTE_def

lemma start_since:
  "ohci_init_ret eng = 0 \<Longrightarrow>
   since w (snd (ohci_mipc_start eng hcd w)) =
     [Ohci_init 0, Mipc_in_be32 HOLLYWOOD_EHCI_CTL (io w HOLLYWOOD_EHCI_CTL),
      Mipc_out_be32 HOLLYWOOD_EHCI_CTL
        (((io w HOLLYWOOD_EHCI_CTL OR 0xe0000) OR HOLLYWOOD_EHCI_CTL_OH0INTE)
           OR HOLLYWOOD_EHCI_CTL_OH1INTE),
      Ohci_run (ohci_run_ret eng)]
     @ (if ohci_run_ret eng \<noteq> 0 then [Err (cant_start (self_bus_name hcd)), Ohci_stop] else [])"
  by (simp add: start_defs)

lemma start_io:
  "ohci_init_ret eng = 0 \<Longrightarrow>
   io (snd (ohci_mipc_start eng hcd w)) =
     (io w)(HOLLYWOOD_EHCI_CTL := ((io w HOLLYWOOD_EHCI_CTL OR 0xe0000)
        OR HOLLYWOOD_EHCI_CTL_OH0INTE) OR HOLLYWOOD_EHCI_CTL_OH1INTE)"
  by (simp add: start_defs)

lemma start_ret:
  "ohci_init_ret eng = 0 \<Longrightarrow> fst (ohci_mipc_start eng hcd w) = ohci_run_ret eng"
  by (simp add: start_defs)

lemma enable_bits_absorbed:
  "(((v OR 0xe0000) OR HOLLYWOOD_EHCI_CTL_OH0INTE) OR HOLLYWOOD_EHCI_CTL_OH1INTE)
      AND HOLLYWOOD_EHCI_CTL_OH0INTE = HOLLYWOOD_EHCI_CTL_OH0INTE"
  "(((v OR 0xe0000) OR HOLLYWOOD_EHCI_CTL_OH0INTE) OR HOLLYWOOD_EHCI_CTL_OH1INTE)
      AND HOLLYWOOD_EHCI_CTL_OH1INTE = HOLLYWOOD_EHCI_CTL_OH1INTE"
  for v :: u32
  by (rule bit_eqI; auto simp add: bit_and_iff bit_or_iff)+

lemma engine_ok_init: "ohci_init_ret engine_ok = 0"
  by (simp add: engine_ok_def)

lemma engine_run_fails_rets:
  "ohci_init_ret engine_run_fails = 0" "ohci_run_ret engine_run_fails \<noteq> 0"
  by (simp_all add: engine_run_fails_def)

text \<open>
  Claim C10. The shared interrupt-enable write is monotone: whenever the engine init
  succeeded, the value written to the register at \<^verbatim>\<open>HOLLYWOOD_EHCI_CTL\<close>, and the
  value it holds afterwards, is its prior value OR the constant
  \<^verbatim>\<open>0xe0000 | OH0INTE | OH1INTE\<close>. Every bit that was set stays set,
  a bit changes only if it is a bit of that constant, and no other address of the I/O
  space changes.
\<close>

theorem shared_enable_monotone:
  assumes "ohci_init_ret eng = 0"
  shows "io (snd (ohci_mipc_start eng hcd w)) HOLLYWOOD_EHCI_CTL =
           io w HOLLYWOOD_EHCI_CTL
             OR (0xe0000 OR HOLLYWOOD_EHCI_CTL_OH0INTE OR HOLLYWOOD_EHCI_CTL_OH1INTE)
       \<and> Mipc_out_be32 HOLLYWOOD_EHCI_CTL
           (io w HOLLYWOOD_EHCI_CTL
              OR (0xe0000 OR HOLLYWOOD_EHCI_CTL_OH0INTE OR HOLLYWOOD_EHCI_CTL_OH1INTE))
           \<in> set (since w (snd (ohci_mipc_start eng hcd w)))
       \<and> (\<forall>n. bit (io w HOLLYWOOD_EHCI_CTL) n
               \<longrightarrow> bit (io (snd (ohci_mipc_start eng hcd w)) HOLLYWOOD_EHCI_CTL) n)
       \<and> (\<forall>n. bit (io (snd (ohci_mipc_start eng hcd w)) HOLLYWOOD_EHCI_CTL) n
                 \<noteq> bit (io w HOLLYWOOD_EHCI_CTL) n
               \<longrightarrow> bit ((0xe0000 :: u32) OR HOLLYWOOD_EHCI_CTL_OH0INTE
                          OR HOLLYWOOD_EHCI_CTL_OH1INTE) n)
       \<and> (\<forall>a. a \<noteq> HOLLYWOOD_EHCI_CTL \<longrightarrow> io (snd (ohci_mipc_start eng hcd w)) a = io w a)"
  using assms by (auto simp add: start_io start_since bit_or_iff or.assoc)

theorem shared_enable_monotone_witness:
  "io (snd (ohci_mipc_start engine_ok hcd0 world0)) HOLLYWOOD_EHCI_CTL = 0xe1800
   \<and> io (snd (ohci_mipc_start engine_ok hcd0 world0)) 0 = 0"
  using shared_enable_monotone [OF engine_ok_init, of hcd0 world0]
  by (simp add: world0_def io_zero_def bit_defs HOLLYWOOD_EHCI_CTL_def)

text \<open>
  Claim C4, as stated: the sequence ORs in the fixed mask plus the enable bit of this
  slot and of no other slot. The start operation has no slot parameter, and the value it
  writes differs from the specified value for slot 0 and from the specified value for
  slot 1: starting from a register holding 0 it writes \<^verbatim>\<open>0xe1800\<close>, with both
  enable bits.
\<close>

theorem shared_enable_not_one_slot:
  "io (snd (ohci_mipc_start engine_ok hcd0 world0)) HOLLYWOOD_EHCI_CTL
     \<noteq> spec_shared_interrupt_enable Slot0 (io world0 HOLLYWOOD_EHCI_CTL)
   \<and> io (snd (ohci_mipc_start engine_ok hcd0 world0)) HOLLYWOOD_EHCI_CTL
     \<noteq> spec_shared_interrupt_enable Slot1 (io world0 HOLLYWOOD_EHCI_CTL)"
  by (simp add: start_io engine_ok_def world0_def io_zero_def spec_shared_interrupt_enable_def
      fixed_mask_def bit_defs)

text \<open>
  Claim C4, amended. The shared interrupt-enable sequence is a read-modify-write: the
  start operation reads the register at \<^verbatim>\<open>HOLLYWOOD_EHCI_CTL\<close> once, then writes
  it once, and these are its only accesses to the I/O space; the value written is the
  value read with the fixed mask and the enable bits of both slots set.
\<close>

theorem shared_enable_read_modify_write:
  assumes "ohci_init_ret eng = 0"
  shows "filter is_mipc (since w (snd (ohci_mipc_start eng hcd w))) =
           [Mipc_in_be32 HOLLYWOOD_EHCI_CTL (io w HOLLYWOOD_EHCI_CTL),
            Mipc_out_be32 HOLLYWOOD_EHCI_CTL
              (((io w HOLLYWOOD_EHCI_CTL OR fixed_mask) OR slot_enable_bit Slot0)
                 OR slot_enable_bit Slot1)]
       \<and> io (snd (ohci_mipc_start eng hcd w)) HOLLYWOOD_EHCI_CTL =
           ((io w HOLLYWOOD_EHCI_CTL OR fixed_mask) OR slot_enable_bit Slot0)
              OR slot_enable_bit Slot1"
  using assms by (simp add: start_since start_io fixed_mask_def)

theorem shared_enable_read_modify_write_witness:
  "filter is_mipc (since world0 (snd (ohci_mipc_start engine_ok hcd0 world0))) =
     [Mipc_in_be32 HOLLYWOOD_EHCI_CTL 0, Mipc_out_be32 HOLLYWOOD_EHCI_CTL 0xe1800]"
  using shared_enable_read_modify_write [OF engine_ok_init, of world0 hcd0]
  by (simp add: world0_def io_zero_def fixed_mask_def bit_defs)

text \<open>
  Claim C3, as stated: after a failed engine run no interrupt-enable bit remains set.
  With the register holding 0 before, engine init succeeding and engine run failing with
  code 5, the start operation returns 5 and the register still has both enable bits set.
\<close>

theorem run_failure_leaves_enable_bits:
  "fst (ohci_mipc_start engine_run_fails hcd0 world0) = 5
   \<and> io world0 HOLLYWOOD_EHCI_CTL = 0
   \<and> io (snd (ohci_mipc_start engine_run_fails hcd0 world0)) HOLLYWOOD_EHCI_CTL
       AND HOLLYWOOD_EHCI_CTL_OH0INTE \<noteq> 0
   \<and> io (snd (ohci_mipc_start engine_run_fails hcd0 world0)) HOLLYWOOD_EHCI_CTL
       AND HOLLYWOOD_EHCI_CTL_OH1INTE \<noteq> 0"
  by (simp add: start_io start_ret engine_run_fails_def world0_def io_zero_def bit_defs)

text \<open>
  Claim C3, amended. If engine init succeeds and engine run then fails, the start
  operation ends with the engine's stop and never writes the shared register again: its
  only accesses are the read and the write of the enable sequence, so the register keeps
  the value written there and both enable bits remain set.
\<close>

theorem run_failure_keeps_enable_bits:
  assumes "ohci_init_ret eng = 0" and "ohci_run_ret eng \<noteq> 0"
  shows "filter is_mipc (since w (snd (ohci_mipc_start eng hcd w))) =
           [Mipc_in_be32 HOLLYWOOD_EHCI_CTL (io w HOLLYWOOD_EHCI_CTL),
            Mipc_out_be32 HOLLYWOOD_EHCI_CTL
              (io (snd (ohci_mipc_start eng hcd w)) HOLLYWOOD_EHCI_CTL)]
       \<and> last (since w (snd (ohci_mipc_start eng hcd w))) = Ohci_stop
       \<and> io (snd (ohci_mipc_start eng hcd w)) HOLLYWOOD_EHCI_CTL =
           ((io w HOLLYWOOD_EHCI_CTL OR 0xe0000) OR HOLLYWOOD_EHCI_CTL_OH0INTE)
              OR HOLLYWOOD_EHCI_CTL_OH1INTE
       \<and> io (snd (ohci_mipc_start eng hcd w)) HOLLYWOOD_EHCI_CTL
           AND HOLLYWOOD_EHCI_CTL_OH0INTE = HOLLYWOOD_EHCI_CTL_OH0INTE
       \<and> io (snd (ohci_mipc_start eng hcd w)) HOLLYWOOD_EHCI_CTL
           AND HOLLYWOOD_EHCI_CTL_OH1INTE = HOLLYWOOD_EHCI_CTL_OH1INTE"
  using assms by (simp add: start_since start_io enable_bits_absorbed)

theorem run_failure_keeps_enable_bits_witness:
  "io (snd (ohci_mipc_start engine_run_fails hcd0 world0)) HOLLYWOOD_EHCI_CTL = 0xe1800
   \<and> last (since world0 (snd (ohci_mipc_start engine_run_fails hcd0 world0))) = Ohci_stop"
  using run_failure_keeps_enable_bits [OF engine_run_fails_rets, of world0 hcd0]
  by (simp add: world0_def io_zero_def bit_defs)

text \<open>
  Claim C6. When engine init succeeds and \<^verbatim>\<open>ohci_run\<close> returns a nonzero code, the
  start operation returns that code, emits exactly one diagnostic message, whose text is
  \<^verbatim>\<open>can't start\<close> followed by the controller's bus name, and calls the engine's stop
  exactly once; the message and the stop are the last two things it does.
\<close>

theorem start_failure_diagnostic:
  assumes "ohci_init_ret eng = 0" and "ohci_run_ret eng \<noteq> 0"
  shows "fst (ohci_mipc_start eng hcd w) = ohci_run_ret eng
       \<and> fst (ohci_mipc_start eng hcd w) \<noteq> 0
       \<and> filter is_diagnostic (since w (snd (ohci_mipc_start eng hcd w))) =
           [Err ([CHR ''c'', CHR ''a'', CHR ''n'', CHR 0x27, CHR ''t''] @ '' start ''
                   @ self_bus_name hcd)]
       \<and> count_list (since w (snd (ohci_mipc_start eng hcd w))) Ohci_stop = 1
       \<and> since w (snd (ohci_mipc_start eng hcd w)) =
           butlast (butlast (since w (snd (ohci_mipc_start eng hcd w))))
             @ [Err ([CHR ''c'', CHR ''a'', CHR ''n'', CHR 0x27, CHR ''t''] @ '' start ''
                       @ self_bus_name hcd),
                Ohci_stop]"
  using assms by (simp add: start_since start_ret cant_start_def)

theorem start_failure_diagnostic_witness:
  "fst (ohci_mipc_start engine_run_fails hcd0 world0) = 5
   \<and> filter is_diagnostic (since world0 (snd (ohci_mipc_start engine_run_fails hcd0 world0))) =
       [Err ([CHR ''c'', CHR ''a'', CHR ''n'', CHR 0x27, CHR ''t''] @ '' start mipc'')]
   \<and> count_list (since world0 (snd (ohci_mipc_start engine_run_fails hcd0 world0))) Ohci_stop = 1"
  using start_failure_diagnostic [OF engine_run_fails_rets, of hcd0 world0]
  by (simp add: engine_run_fails_def hcd0_def)

subsection \<open>Two concurrent bring-ups\<close>

lemmas conc_defs = enable_read_def enable_write_def two_bring_ups_def nothing_fetched_def
  mipc_in_be32_def mipc_out_be32_def emit_def Let_def since_def

lemma enable_value:
  "((v OR 0xe0000) OR HOLLYWOOD_EHCI_CTL_OH0INTE) OR HOLLYWOOD_EHCI_CTL_OH1INTE = v OR 0xe1800"
  for v :: u32
  by (simp add: bit_defs or.assoc)

lemma enable_value_twice: "(v OR 0xe1800) OR 0xe1800 = v OR 0xe1800"
  for v :: u32
  by (simp add: or.assoc)

lemma enable_value_bits:
  "(v OR 0xe1800) AND HOLLYWOOD_EHCI_CTL_OH0INTE = HOLLYWOOD_EHCI_CTL_OH0INTE"
  "(v OR 0xe1800) AND HOLLYWOOD_EHCI_CTL_OH1INTE = HOLLYWOOD_EHCI_CTL_OH1INTE"
  for v :: u32
  using enable_bits_absorbed [of v] by (simp_all add: enable_value)

lemma six_schedules:
  "schedules =
     {[Rd Slot0, Wr Slot0, Rd Slot1, Wr Slot1], [Rd Slot0, Rd Slot1, Wr Slot0, Wr Slot1],
      [Rd Slot0, Rd Slot1, Wr Slot1, Wr Slot0], [Rd Slot1, Rd Slot0, Wr Slot0, Wr Slot1],
      [Rd Slot1, Rd Slot0, Wr Slot1, Wr Slot0], [Rd Slot1, Wr Slot1, Rd Slot0, Wr Slot0]}"
  by (auto simp add: schedules_def shuffles.simps)

text \<open>
  One instance's two steps, run alone, are the enable sequence of the start operation:
  the same accesses to the I/O space and the same I/O space afterwards.
\<close>

lemma enable_steps_are_start:
  "ohci_init_ret eng = 0 \<Longrightarrow>
   map_option (\<lambda>c. (io (shared c), since w (shared c)))
     (run_schedule [Rd s, Wr s] (two_bring_ups w))
   = Some (io (snd (ohci_mipc_start eng hcd w)),
           filter is_mipc (since w (snd (ohci_mipc_start eng hcd w))))"
  by (simp add: conc_defs ohci_mipc_start_def ohci_init_def ohci_run_def ohci_stop_def err_def)

lemma schedule_result:
  assumes "sched \<in> schedules"
  shows "\<exists>c'. run_schedule sched (two_bring_ups w) = Some c'
           \<and> io (shared c') = (io w)(HOLLYWOOD_EHCI_CTL := io w HOLLYWOOD_EHCI_CTL OR 0xe1800)"
  using assms unfolding six_schedules
  by (auto simp add: conc_defs enable_value enable_value_twice)

text \<open>
  Claim C8, as stated: the read-modify-write of the two bring-up sequences is protected
  by mutual exclusion. The source takes no lock around lines 55 to 57, and the schedule
  in which both instances read before either writes is a run of the two sequences: the
  second instance reads the register while the first is between its read and its write.
\<close>

theorem enable_sequences_overlap:
  "[Rd Slot0, Rd Slot1, Wr Slot0, Wr Slot1] \<in> schedules
   \<and> map_option (trace \<circ> shared)
       (run_schedule [Rd Slot0, Rd Slot1, Wr Slot0, Wr Slot1] (two_bring_ups world0))
      = Some [Mipc_in_be32 HOLLYWOOD_EHCI_CTL 0, Mipc_in_be32 HOLLYWOOD_EHCI_CTL 0,
              Mipc_out_be32 HOLLYWOOD_EHCI_CTL 0xe1800, Mipc_out_be32 HOLLYWOOD_EHCI_CTL 0xe1800]
   \<and> \<not> exclusive None [Rd Slot0, Rd Slot1, Wr Slot0, Wr Slot1]"
  by (simp add: six_schedules conc_defs world0_def io_zero_def bit_defs)

text \<open>
  Claim C8, amended. The two read-modify-write sequences are not protected by mutual
  exclusion: some schedule of two concurrent bring-ups is not exclusive. Even so, every
  schedule runs to the end and leaves the register holding its prior value OR the
  constant \<^verbatim>\<open>0xe0000 | OH0INTE | OH1INTE\<close>, because each instance ORs in that same
  constant with both enable bits: both slot-enable bits are set, no bit that was set is
  lost, no bit outside the constant changes and no other address changes.
\<close>

theorem interleaved_enable_sets_both_bits:
  "(\<exists>sched \<in> schedules. \<not> exclusive None sched)
   \<and> (\<forall>sched \<in> schedules.
        \<exists>c'. run_schedule sched (two_bring_ups w) = Some c'
          \<and> io (shared c') HOLLYWOOD_EHCI_CTL =
              io w HOLLYWOOD_EHCI_CTL
                OR (0xe0000 OR HOLLYWOOD_EHCI_CTL_OH0INTE OR HOLLYWOOD_EHCI_CTL_OH1INTE)
          \<and> io (shared c') HOLLYWOOD_EHCI_CTL AND HOLLYWOOD_EHCI_CTL_OH0INTE
              = HOLLYWOOD_EHCI_CTL_OH0INTE
          \<and> io (shared c') HOLLYWOOD_EHCI_CTL AND HOLLYWOOD_EHCI_CTL_OH1INTE
              = HOLLYWOOD_EHCI_CTL_OH1INTE
          \<and> (\<forall>n. bit (io w HOLLYWOOD_EHCI_CTL) n \<longrightarrow> bit (io (shared c') HOLLYWOOD_EHCI_CTL) n)
          \<and> (\<forall>n. bit (io (shared c') HOLLYWOOD_EHCI_CTL) n \<noteq> bit (io w HOLLYWOOD_EHCI_CTL) n
                 \<longrightarrow> bit ((0xe0000 :: u32) OR HOLLYWOOD_EHCI_CTL_OH0INTE
                            OR HOLLYWOOD_EHCI_CTL_OH1INTE) n)
          \<and> (\<forall>a. a \<noteq> HOLLYWOOD_EHCI_CTL \<longrightarrow> io (shared c') a = io w a))"
proof (intro conjI ballI)
  have "[Rd Slot0, Rd Slot1, Wr Slot0, Wr Slot1] \<in> schedules"
    by (simp add: six_schedules)
  moreover have "\<not> exclusive None [Rd Slot0, Rd Slot1, Wr Slot0, Wr Slot1]"
    by simp
  ultimately show "\<exists>sched \<in> schedules. \<not> exclusive None sched"
    by blast
next
  fix sched
  assume "sched \<in> schedules"
  from schedule_result [OF this, of w] obtain c' where
    run: "run_schedule sched (two_bring_ups w) = Some c'" and
    io: "io (shared c') = (io w)(HOLLYWOOD_EHCI_CTL := io w HOLLYWOOD_EHCI_CTL OR 0xe1800)"
    by blast
  have k: "(0xe0000 :: u32) OR HOLLYWOOD_EHCI_CTL_OH0INTE OR HOLLYWOOD_EHCI_CTL_OH1INTE = 0xe1800"
    by (simp add: bit_defs)
  have "io (shared c') HOLLYWOOD_EHCI_CTL = io w HOLLYWOOD_EHCI_CTL OR 0xe1800"
    by (simp add: io)
  moreover have "\<forall>a. a \<noteq> HOLLYWOOD_EHCI_CTL \<longrightarrow> io (shared c') a = io w a"
    by (simp add: io)
  ultimately show "\<exists>c'. run_schedule sched (two_bring_ups w) = Some c'
          \<and> io (shared c') HOLLYWOOD_EHCI_CTL =
              io w HOLLYWOOD_EHCI_CTL
                OR (0xe0000 OR HOLLYWOOD_EHCI_CTL_OH0INTE OR HOLLYWOOD_EHCI_CTL_OH1INTE)
          \<and> io (shared c') HOLLYWOOD_EHCI_CTL AND HOLLYWOOD_EHCI_CTL_OH0INTE
              = HOLLYWOOD_EHCI_CTL_OH0INTE
          \<and> io (shared c') HOLLYWOOD_EHCI_CTL AND HOLLYWOOD_EHCI_CTL_OH1INTE
              = HOLLYWOOD_EHCI_CTL_OH1INTE
          \<and> (\<forall>n. bit (io w HOLLYWOOD_EHCI_CTL) n \<longrightarrow> bit (io (shared c') HOLLYWOOD_EHCI_CTL) n)
          \<and> (\<forall>n. bit (io (shared c') HOLLYWOOD_EHCI_CTL) n \<noteq> bit (io w HOLLYWOOD_EHCI_CTL) n
                 \<longrightarrow> bit ((0xe0000 :: u32) OR HOLLYWOOD_EHCI_CTL_OH0INTE
                            OR HOLLYWOOD_EHCI_CTL_OH1INTE) n)
          \<and> (\<forall>a. a \<noteq> HOLLYWOOD_EHCI_CTL \<longrightarrow> io (shared c') a = io w a)"
    using run by (auto simp add: k enable_value_bits bit_or_iff)
qed

theorem interleaved_enable_sets_both_bits_witness:
  "[Rd Slot0, Rd Slot1, Wr Slot1, Wr Slot0] \<in> schedules
   \<and> map_option (\<lambda>c. io (shared c) HOLLYWOOD_EHCI_CTL)
       (run_schedule [Rd Slot0, Rd Slot1, Wr Slot1, Wr Slot0] (two_bring_ups world0))
      = Some 0xe1800"
proof -
  have mem: "[Rd Slot0, Rd Slot1, Wr Slot1, Wr Slot0] \<in> schedules"
    by (simp add: six_schedules)
  from interleaved_enable_sets_both_bits [of world0, THEN conjunct2, THEN bspec, OF mem] mem
  show ?thesis
    by (auto simp add: world0_def io_zero_def bit_defs)
qed

section \<open>Probe and remove\<close>

lemmas probe_defs = ohci_hcd_mipc_probe_def of_address_to_resource_def usb_create_hcd_def
  irq_of_parse_and_map_def ohci_hcd_init_def usb_add_hcd_def irq_dispose_mapping_def
  usb_put_hcd_def dev_dbg_def printk_def out_def err_irq_def err_add_hcd_def emit_def
  since_def Let_def

lemmas input_defs = linux_consts_def env_ok_def world0_def hcd0_def res0_def


lemma probe_env_ok:
  "ohci_hcd_mipc_probe linux_consts env_ok world0 = (0, Some hcd_live, world_live)"
  by (simp add: world_live_def hcd_live_def probe_defs input_defs)


lemma env_no_irq_facts:
  "\<not> usb_disabled_ret env_no_irq"
  "starlet_get_ipc_flavour_ret env_no_irq = STARLET_IPC_MINI linux_consts"
  "fst (of_address_to_resource_ret env_no_irq) = 0"
  "usb_create_hcd_ret env_no_irq \<noteq> None"
  "irq_of_parse_and_map_ret env_no_irq = NO_IRQ linux_consts"
  by (simp_all add: input_defs env_no_irq_def)



text \<open>
  Claim C2, as stated: when the register window resolves and the interrupt line cannot
  be mapped, the probe fails having performed zero resource allocation. On such a node
  the probe returns \<^verbatim>\<open>-EBUSY\<close>, but \<^verbatim>\<open>usb_create_hcd\<close> has run, and succeeded,
  before \<^verbatim>\<open>irq_of_parse_and_map\<close>: one resource was acquired.
\<close>

theorem irq_lookup_after_allocation:
  "fst (ohci_hcd_mipc_probe linux_consts env_no_irq world0) = - EBUSY linux_consts
   \<and> trace (snd (snd (ohci_hcd_mipc_probe linux_consts env_no_irq world0))) =
       [Dev_dbg ''initializing ohci-mipc USB Controller\<newline>'', Of_address_to_resource 0,
        Usb_create_hcd True, Irq_of_parse_and_map 0, Printk '': irq_of_parse_and_map failed\<newline>'',
        Usb_put_hcd]
   \<and> List.map_filter (acquired linux_consts)
        (trace (snd (snd (ohci_hcd_mipc_probe linux_consts env_no_irq world0)))) \<noteq> []"
  by (simp add: probe_defs input_defs env_no_irq_def List.map_filter_def)

text \<open>
  Claim C2, amended. The interrupt-line lookup is performed after the register-window
  resolution and after the allocation of the controller handle: in every probe, the calls
  before a lookup are the debug message, a successful \<^verbatim>\<open>of_address_to_resource\<close> and
  a successful \<^verbatim>\<open>usb_create_hcd\<close>. For every node whose register window resolves and
  whose handle is allocated but whose interrupt line cannot be mapped, the probe fails
  with \<^verbatim>\<open>-EBUSY\<close> having acquired the controller handle and nothing else, and having
  released it again before it returns.
\<close>

theorem irq_failure_after_allocation:
  "(Irq_of_parse_and_map i \<in> set (since w (snd (snd (ohci_hcd_mipc_probe k env w)))) \<longrightarrow>
      takeWhile (\<lambda>e. e \<noteq> Irq_of_parse_and_map i)
        (since w (snd (snd (ohci_hcd_mipc_probe k env w)))) =
        [Dev_dbg ''initializing ohci-mipc USB Controller\<newline>'', Of_address_to_resource 0,
         Usb_create_hcd True])
   \<and> (\<not> usb_disabled_ret env \<and> starlet_get_ipc_flavour_ret env = STARLET_IPC_MINI k
      \<and> fst (of_address_to_resource_ret env) = 0 \<and> usb_create_hcd_ret env \<noteq> None
      \<and> irq_of_parse_and_map_ret env = NO_IRQ k \<longrightarrow>
        fst (ohci_hcd_mipc_probe k env w) = - EBUSY k
      \<and> fst (snd (ohci_hcd_mipc_probe k env w)) = None
      \<and> since w (snd (snd (ohci_hcd_mipc_probe k env w))) =
          [Dev_dbg ''initializing ohci-mipc USB Controller\<newline>'', Of_address_to_resource 0,
           Usb_create_hcd True, Irq_of_parse_and_map (NO_IRQ k),
           Printk '': irq_of_parse_and_map failed\<newline>'', Usb_put_hcd]
      \<and> List.map_filter (acquired k) (since w (snd (snd (ohci_hcd_mipc_probe k env w))))
          = [Hcd_handle]
      \<and> List.map_filter released (since w (snd (snd (ohci_hcd_mipc_probe k env w))))
          = [Hcd_handle]
      \<and> lifo k (since w (snd (snd (ohci_hcd_mipc_probe k env w)))) [] = Some [])"
  by (cases "usb_create_hcd_ret env")
     (auto simp add: probe_defs List.map_filter_def split: prod.splits if_splits)

theorem irq_failure_after_allocation_witness:
  "fst (ohci_hcd_mipc_probe linux_consts env_no_irq world0) = - 16
   \<and> List.map_filter (acquired linux_consts)
       (since world0 (snd (snd (ohci_hcd_mipc_probe linux_consts env_no_irq world0))))
       = [Hcd_handle]
   \<and> lifo linux_consts
       (since world0 (snd (snd (ohci_hcd_mipc_probe linux_consts env_no_irq world0)))) []
       = Some []
   \<and> takeWhile (\<lambda>e. e \<noteq> Irq_of_parse_and_map 0)
       (since world0 (snd (snd (ohci_hcd_mipc_probe linux_consts env_no_irq world0)))) =
       [Dev_dbg ''initializing ohci-mipc USB Controller\<newline>'', Of_address_to_resource 0,
        Usb_create_hcd True]"
proof -
  have tr: "since world0 (snd (snd (ohci_hcd_mipc_probe linux_consts env_no_irq world0))) =
       [Dev_dbg ''initializing ohci-mipc USB Controller\<newline>'', Of_address_to_resource 0,
        Usb_create_hcd True, Irq_of_parse_and_map 0, Printk '': irq_of_parse_and_map failed\<newline>'',
        Usb_put_hcd]"
    by (simp add: probe_defs input_defs env_no_irq_def)
  then have mem: "Irq_of_parse_and_map 0
      \<in> set (since world0 (snd (snd (ohci_hcd_mipc_probe linux_consts env_no_irq world0))))"
    by simp
  from irq_failure_after_allocation [of 0 world0 linux_consts env_no_irq] mem env_no_irq_facts
  show ?thesis by (simp add: linux_consts_def)
qed

text \<open>
  Claim C5. For every handle, and whatever the USB core leaves in it, the remove
  operation returns 0 and calls, in this order, \<^verbatim>\<open>usb_remove_hcd\<close> (the bus
  registration), \<^verbatim>\<open>irq_dispose_mapping\<close> on the interrupt number the handle holds
  when \<^verbatim>\<open>usb_remove_hcd\<close> has returned (the interrupt mapping) and
  \<^verbatim>\<open>usb_put_hcd\<close> (the handle); it acquires nothing and releases nothing else. Its
  only other calls are clearing the device's driver-data pointer and a debug message.
  After a successful probe the kinds of resource released are the kinds that probe
  acquired, in reverse order. When the USB core has left the interrupt number of the
  handle as it was, the resources released are exactly those the probe acquired, in
  reverse, and probe followed by remove leaves nothing held.
\<close>

theorem remove_mirrors_probe:
  "fst (ohci_hcd_mipc_remove core hcd w) = 0
   \<and> since w (snd (ohci_hcd_mipc_remove core hcd w)) =
       [Dev_set_drvdata_NULL, Dev_dbg ''stopping ohci-mipc USB Controller\<newline>'',
        Usb_remove_hcd, Irq_dispose_mapping (irq (core hcd)), Usb_put_hcd]
   \<and> List.map_filter released (since w (snd (ohci_hcd_mipc_remove core hcd w))) =
       [Bus_registration, Irq_mapping (irq (core hcd)), Hcd_handle]
   \<and> List.map_filter (acquired k) (since w (snd (ohci_hcd_mipc_remove core hcd w))) = []
   \<and> (ohci_hcd_mipc_probe k env w0 = (0, Some hcd, w) \<longrightarrow>
        map kind_of (List.map_filter released (since w (snd (ohci_hcd_mipc_remove core hcd w))))
          = rev (map kind_of (List.map_filter (acquired k) (since w0 w)))
      \<and> (irq (core hcd) = irq hcd \<longrightarrow>
           List.map_filter released (since w (snd (ohci_hcd_mipc_remove core hcd w))) =
             rev (List.map_filter (acquired k) (since w0 w))
         \<and> lifo k (since w0 (snd (ohci_hcd_mipc_remove core hcd w))) [] = Some []))"
  apply (intro conjI impI)
        apply (simp_all add: ohci_hcd_mipc_remove_def usb_remove_hcd_def dev_set_drvdata_NULL_def
      probe_defs List.map_filter_def)
    apply (auto simp add: probe_defs List.map_filter_def split: prod.splits option.splits if_splits)
  done

theorem remove_mirrors_probe_witness:
  "fst (ohci_hcd_mipc_remove core_keeps_handle hcd_live world_live) = 0
   \<and> List.map_filter released
       (since world_live (snd (ohci_hcd_mipc_remove core_keeps_handle hcd_live world_live)))
       = [Bus_registration, Irq_mapping 5, Hcd_handle]
   \<and> List.map_filter (acquired linux_consts) (since world0 world_live)
       = [Hcd_handle, Irq_mapping 5, Bus_registration]
   \<and> lifo linux_consts
       (since world0 (snd (ohci_hcd_mipc_remove core_keeps_handle hcd_live world_live))) []
       = Some []
   \<and> since world_live (snd (ohci_hcd_mipc_remove core_resets_irq hcd_live world_live)) =
       [Dev_set_drvdata_NULL, Dev_dbg ''stopping ohci-mipc USB Controller\<newline>'',
        Usb_remove_hcd, Irq_dispose_mapping (- 1), Usb_put_hcd]"
proof -
  have acq: "List.map_filter (acquired linux_consts) (since world0 world_live)
      = [Hcd_handle, Irq_mapping 5, Bus_registration]"
    by (simp add: world_live_def probe_defs input_defs List.map_filter_def)
  have same: "irq (core_keeps_handle hcd_live) = irq hcd_live"
    by (simp add: core_keeps_handle_def)
  from remove_mirrors_probe [of core_keeps_handle hcd_live world_live linux_consts env_ok world0]
       remove_mirrors_probe [of core_resets_irq hcd_live world_live linux_consts env_ok world0]
       probe_env_ok acq same
  show ?thesis by (simp add: hcd_live_def core_keeps_handle_def core_resets_irq_def)
qed

section \<open>Power sequencing\<close>

lemmas wii_defs = call_def local_irq_disable_def calls_since_def

lemma spin_spins:
  "spin n m = Spinning (m\<lparr>calls := calls m @ replicate n Cpu_relax\<rparr>)"
proof (induction n arbitrary: m)
  case 0
  show ?case by simp
next
  case (Suc n)
  then show ?case by (simp add: cpu_relax_def replicate_append_same)
qed

lemma hbc_launch_returns:
  "every_call_returns (Starlet_es_reload_ios_and_launch STARLET_TITLE_HBC)"
  by (simp add: every_call_returns_def)

text \<open>
  Claim C7. Restart disables interrupts, makes the primary remote call (reload the
  alternate boot title and launch) and, when that comes back, the fallback remote call
  (assisted restart): these two, in this order, are all its remote calls. When the
  fallback comes back too it spins, and all it does then is \<^verbatim>\<open>cpu_relax\<close>: there is
  no third remote call. Power-off disables interrupts, makes its single remote call
  (assisted power-off) and spins when that comes back. Neither operation ever returns
  to its caller, whatever the fuel, and interrupts are disabled from the first step on.
\<close>

theorem restart_power_off_sequence:
  "calls_since m (wii_restart fuel returns cmd m) =
     [Local_irq_disable, Starlet_es_reload_ios_and_launch STARLET_TITLE_HBC]
     @ (if returns (Starlet_es_reload_ios_and_launch STARLET_TITLE_HBC)
        then Starlet_stm_restart
               # (if returns Starlet_stm_restart then replicate fuel Cpu_relax else [])
        else [])
   \<and> (returns (Starlet_es_reload_ios_and_launch STARLET_TITLE_HBC) \<longrightarrow>
        filter is_remote (calls_since m (wii_restart fuel returns cmd m)) =
          [Starlet_es_reload_ios_and_launch STARLET_TITLE_HBC, Starlet_stm_restart])
   \<and> (is_spinning (wii_restart fuel returns cmd m) \<longleftrightarrow>
        returns (Starlet_es_reload_ios_and_launch STARLET_TITLE_HBC)
        \<and> returns Starlet_stm_restart)
   \<and> \<not> has_returned (wii_restart fuel returns cmd m)
   \<and> \<not> irqs_enabled (machine_of (wii_restart fuel returns cmd m))
   \<and> calls_since m (wii_power_off fuel returns m) =
       [Local_irq_disable, Starlet_stm_power_off]
       @ (if returns Starlet_stm_power_off then replicate fuel Cpu_relax else [])
   \<and> filter is_remote (calls_since m (wii_power_off fuel returns m)) = [Starlet_stm_power_off]
   \<and> (is_spinning (wii_power_off fuel returns m) \<longleftrightarrow> returns Starlet_stm_power_off)
   \<and> \<not> has_returned (wii_power_off fuel returns m)
   \<and> \<not> irqs_enabled (machine_of (wii_power_off fuel returns m))"
  by (simp add: wii_restart_def wii_power_off_def wii_defs spin_spins)

theorem restart_power_off_sequence_witness:
  "is_spinning (wii_restart 7 every_call_returns None machine0)
   \<and> filter is_remote (calls_since machine0 (wii_restart 7 every_call_returns None machine0)) =
       [Starlet_es_reload_ios_and_launch STARLET_TITLE_HBC, Starlet_stm_restart]
   \<and> is_spinning (wii_power_off 7 every_call_returns machine0)
   \<and> \<not> irqs_enabled (machine_of (wii_power_off 7 every_call_returns machine0))
   \<and> is_spinning (wii_power_off 7 launch_never_returns machine0)
   \<and> calls_since machine0 (wii_power_off 2 launch_never_returns machine0) =
       [Local_irq_disable, Starlet_stm_power_off, Cpu_relax, Cpu_relax]
   \<and> calls_since machine0 (wii_restart 7 launch_never_returns None machine0) =
       [Local_irq_disable, Starlet_es_reload_ios_and_launch STARLET_TITLE_HBC]"
  using restart_power_off_sequence [of machine0 7 every_call_returns None]
        restart_power_off_sequence [of machine0 7 launch_never_returns None]
        restart_power_off_sequence [of machine0 2 launch_never_returns None]
        hbc_launch_returns
  by (simp add: every_call_returns_def numeral_2_eq_2)

text \<open>
  Claim C9. The kexec operation disables interrupts first, then issues the remote call
  that discards the current I/O-subsystem session, and jumps to the image
  (\<^verbatim>\<open>default_machine_kexec\<close>) only when that call has come back; these are all its
  calls, in this order, with interrupts disabled throughout: there is no fallback step
  and no spin.
\<close>

theorem kexec_sequence:
  "calls_since m (wii_machine_kexec returns img m) =
     (if returns Starlet_es_reload_ios_and_discard
      then [Local_irq_disable, Starlet_es_reload_ios_and_discard, Default_machine_kexec img]
      else [Local_irq_disable, Starlet_es_reload_ios_and_discard])
   \<and> \<not> irqs_enabled (machine_of (wii_machine_kexec returns img m))
   \<and> \<not> is_spinning (wii_machine_kexec returns img m)"
  by (simp add: wii_machine_kexec_def wii_defs)

theorem kexec_sequence_witness:
  "calls_since machine0 (wii_machine_kexec every_call_returns 1 machine0) =
     [Local_irq_disable, Starlet_es_reload_ios_and_discard, Default_machine_kexec 1]"
  using kexec_sequence [of machine0 every_call_returns 1]
  by (simp add: every_call_returns_def)

end
